theory Spec2Isabelle
  imports Complex_Main
begin

section \<open>Python values used by the translators\<close>

subsection \<open>Strings\<close>

text \<open>
  A Python \<open>str\<close> is a sequence of Unicode code points; it is modelled as a list of
  natural numbers.  \<open>U\<close> writes an ASCII literal as such a list.
\<close>

type_synonym str = "nat list"

definition U :: "string \<Rightarrow> str" where
  "U s = map of_char s"

text \<open>
  \<open>str.isspace\<close> on one code point: the characters that \<open>str.strip()\<close> removes
  (tab to carriage return, the separators \<open>0x1C\<close> to \<open>0x1F\<close>, space, NEL, no-break space,
  Ogham space, the \<open>U+2000\<close> block of spaces, line and paragraph separator, narrow no-break
  space, medium mathematical space, ideographic space).
\<close>

definition isspace :: "nat \<Rightarrow> bool" where
  "isspace c \<longleftrightarrow>
     (9 \<le> c \<and> c \<le> 13) \<or> (28 \<le> c \<and> c \<le> 32) \<or> c = 133 \<or> c = 160 \<or> c = 5760 \<or>
     (8192 \<le> c \<and> c \<le> 8202) \<or> c = 8232 \<or> c = 8233 \<or> c = 8239 \<or> c = 8287 \<or> c = 12288"

definition strip :: "str \<Rightarrow> str" where
  "strip s = rev (dropWhile isspace (rev (dropWhile isspace s)))"

text \<open>\<open>s.split(sep)\<close> for a separator of one character: \<open>''''.split(':')\<close> is \<open>['''']\<close>.\<close>

fun split_on :: "nat \<Rightarrow> str \<Rightarrow> str list" where
  "split_on sep [] = [[]]"
| "split_on sep (c # cs) =
     (if c = sep then [] # split_on sep cs
      else (case split_on sep cs of [] \<Rightarrow> [[c]] | w # ws \<Rightarrow> (c # w) # ws))"

text \<open>\<open>' '.join(xs)\<close>.\<close>

fun join_space :: "str list \<Rightarrow> str" where
  "join_space [] = []"
| "join_space [x] = x"
| "join_space (x # y # ys) = x @ [32] @ join_space (y # ys)"

text \<open>\<open>needle in haystack\<close> for two strings: substring test.\<close>

fun substring :: "str \<Rightarrow> str \<Rightarrow> bool" where
  "substring k [] = (k = [])"
| "substring k (c # cs) = (take (length k) (c # cs) = k \<or> substring k cs)"

text \<open>\<open>os.path.basename\<close>: what follows the last slash.\<close>

definition basename :: "str \<Rightarrow> str" where
  "basename p = rev (takeWhile (\<lambda>c. c \<noteq> 47) (rev p))"

text \<open>\<open>os.path.join(a, b)\<close> for a relative, non-empty second component \<open>b\<close>.\<close>

definition path_join :: "str \<Rightarrow> str \<Rightarrow> str" where
  "path_join a b = (if a = [] \<or> last a = 47 then a @ b else a @ [47] @ b)"

subsection \<open>Decoded JSON and the dynamic operations applied to it\<close>

datatype json =
    JNull
  | JBool bool
  | JInt int
  | JFloat real
  | JStr str
  | JArr "json list"
  | JObj "(str \<times> json) list"

text \<open>
  Exceptions and the messages of the \<open>ValueError\<close>s the translators raise.  A message
  built by an f-string is kept as a constructor with the interpolated values as
  arguments; the fixed text it stands for is given beside it.  \<open>UnexpectedMsg e\<close> is
  \<open>f"<unexpected error>: {str(e)}"\<close> for the caught exception \<open>e\<close>.
\<close>

datatype exn =
    ValueError message
  | TimeoutExpired
  | SubprocessError str
  | FileNotFoundError str
  | TypeError
  | KeyError
  | IndexError
  | AttributeError
  | OtherException str
and message =
    MissingKeyMsg                    \<comment> \<open>"error: environment variable GEMINI_API_KEY is not set"\<close>
  | CurlErrorMsg int "str option"    \<comment> \<open>"curl error: connection failed (exit code: rc)", then the
                                          detail line with stderr when there is one\<close>
  | InvalidJsonMsg str               \<comment> \<open>"error: invalid JSON response" and the raw response\<close>
  | ApiErrorMsg json                 \<comment> \<open>"API error: " and the provider's message\<close>
  | NoResultMsg                      \<comment> \<open>"error: the translation result could not be obtained"\<close>
  | EmptyResultMsg                   \<comment> \<open>"error: the translation result was empty"\<close>
  | TimeoutMsg                       \<comment> \<open>"timeout error: ..."\<close>
  | ProcessErrorMsg str              \<comment> \<open>"process error: " and \<open>str(e)\<close>\<close>
  | PlamoNotFoundMsg                 \<comment> \<open>"plamo-translate was not found"\<close>
  | PlamoErrorMsg str                \<comment> \<open>"plamo-translate error: " and stderr or stdout\<close>
  | UnexpectedMsg exn                \<comment> \<open>"unexpected error: " and \<open>str(e)\<close>\<close>

text \<open>Truth value of a decoded JSON value (\<open>not x\<close> is its negation).\<close>

fun truthy :: "json \<Rightarrow> bool" where
  "truthy JNull = False"
| "truthy (JBool b) = b"
| "truthy (JInt i) = (i \<noteq> 0)"
| "truthy (JFloat r) = (r \<noteq> 0)"
| "truthy (JStr s) = (s \<noteq> [])"
| "truthy (JArr xs) = (xs \<noteq> [])"
| "truthy (JObj kvs) = (kvs \<noteq> [])"

text \<open>\<open>k in x\<close> for a string \<open>k\<close>: key of a dict, element of a list, substring of a string.\<close>

fun py_in :: "str \<Rightarrow> json \<Rightarrow> exn + bool" where
  "py_in k (JObj kvs) = Inr (k \<in> set (map fst kvs))"
| "py_in k (JArr xs) = Inr (JStr k \<in> set xs)"
| "py_in k (JStr s) = Inr (substring k s)"
| "py_in k _ = Inl TypeError"

text \<open>\<open>x[k]\<close> for a string \<open>k\<close>.\<close>

fun getitem :: "json \<Rightarrow> str \<Rightarrow> exn + json" where
  "getitem (JObj kvs) k = (case map_of kvs k of None \<Rightarrow> Inl KeyError | Some v \<Rightarrow> Inr v)"
| "getitem _ k = Inl TypeError"

text \<open>\<open>x[0]\<close>; the keys of a decoded JSON object are strings, so \<open>0\<close> is never one.\<close>

fun getitem0 :: "json \<Rightarrow> exn + json" where
  "getitem0 (JArr []) = Inl IndexError"
| "getitem0 (JArr (v # vs)) = Inr v"
| "getitem0 (JStr []) = Inl IndexError"
| "getitem0 (JStr (c # cs)) = Inr (JStr [c])"
| "getitem0 (JObj kvs) = Inl KeyError"
| "getitem0 _ = Inl TypeError"

text \<open>\<open>x.get(k, default)\<close>: only a dict has the method.\<close>

fun py_get :: "json \<Rightarrow> str \<Rightarrow> json \<Rightarrow> exn + json" where
  "py_get (JObj kvs) k d = Inr (case map_of kvs k of None \<Rightarrow> d | Some v \<Rightarrow> v)"
| "py_get _ k d = Inl AttributeError"

text \<open>\<open>x.strip()\<close>: only a string has the method.\<close>

fun py_strip :: "json \<Rightarrow> exn + str" where
  "py_strip (JStr s) = Inr (strip s)"
| "py_strip _ = Inl AttributeError"

text \<open>Sequencing of a computation that may raise.\<close>

definition bind :: "exn + 'a \<Rightarrow> ('a \<Rightarrow> exn + 'b) \<Rightarrow> exn + 'b" where
  "bind m f = (case m of Inl e \<Rightarrow> Inl e | Inr v \<Rightarrow> f v)"

subsection \<open>Processes, the clock and the trace of effects\<close>

text \<open>The \<open>CompletedProcess\<close> returned by \<open>subprocess.run\<close> with captured text output.\<close>

record completed =
  returncode :: int
  stdout :: str
  stderr :: str

text \<open>The two curl command lines of the Gemini translator.\<close>

datatype variant = Header | UrlParam

text \<open>What a dialog shows; the title follows from the constructor.\<close>

datatype dialog =
    NoTextSelected                 \<comment> \<open>"no text is selected", title "error"\<close>
  | ErrorDialog message            \<comment> \<open>\<open>str(e)\<close> of a \<open>ValueError\<close>, title "error"\<close>
  | UnexpectedDialog exn           \<comment> \<open>"an unexpected error occurred: " and \<open>str(e)\<close>\<close>
  | ResultDialog str real real     \<comment> \<open>translation, transport time, total time\<close>
  | NotFoundDialog "str list"      \<comment> \<open>plamo-translate not found, with the PATH that was read\<close>

datatype event =
    Build                          \<comment> \<open>the prompt and the request dictionary are built\<close>
  | MkTemp                         \<comment> \<open>the payload is written to a temporary file\<close>
  | Curl variant
  | Unlink str
  | Loads                          \<comment> \<open>\<open>json.loads\<close> and the checks on the decoded value\<close>
  | Plamo str str                  \<comment> \<open>the located executable run on a text\<close>
  | ShellEcho str                  \<comment> \<open>the login shell asked for an environment variable\<close>
  | ShellPath                      \<comment> \<open>the login shell asked for its \<open>PATH\<close>\<close>
  | Osascript dialog
  | PrintDialog dialog             \<comment> \<open>the dialog's text printed instead\<close>
  | Stderr dialog                  \<comment> \<open>the dialog's text written to standard error\<close>
  | Pbcopy str
  | Print str

text \<open>The world a call runs in: the wall clock and the effects performed so far.\<close>

record world =
  now :: real
  trace :: "event list"

text \<open>
  What the translators' collaborators answer.  \<open>cost\<close> is the time a step takes; a
  process either returns (\<open>Inr\<close>) or \<open>subprocess.run\<close> raises (\<open>Inl\<close>).
\<close>

record ui_env =
  cost :: "event \<Rightarrow> real"
  osascript :: "dialog \<Rightarrow> exn option"
  pbcopy :: "str \<Rightarrow> exn option"

record gemini_env = ui_env +
  shell_echo :: "str \<Rightarrow> exn + completed"   \<comment> \<open>login shell, \<open>echo $NAME\<close>, by variable name\<close>
  environ :: "str \<Rightarrow> str option"            \<comment> \<open>\<open>os.environ.get\<close>\<close>
  mktemp :: "exn + str"                       \<comment> \<open>the temporary file's path\<close>
  curl :: "variant \<Rightarrow> exn + completed"
  json_loads :: "str \<Rightarrow> json option"       \<comment> \<open>\<open>None\<close>: \<open>JSONDecodeError\<close>\<close>

definition effect :: "('a ui_env_scheme) \<Rightarrow> event \<Rightarrow> world \<Rightarrow> world" where
  "effect env ev w = w\<lparr>now := now w + cost env ev, trace := trace w @ [ev]\<rparr>"

text \<open>\<open>except subprocess.SubprocessError\<close> also catches its subclass \<open>TimeoutExpired\<close>.\<close>

fun is_subprocess_error :: "exn \<Rightarrow> bool" where
  "is_subprocess_error TimeoutExpired = True"
| "is_subprocess_error (SubprocessError s) = True"
| "is_subprocess_error _ = False"

section \<open>Gemini translator (translate_gemini.py)\<close>

record translator =
  program_start_time :: real
  api_key :: "str option"

text \<open>\<open>QuickTranslator._get_api_key\<close>.\<close>

definition gemini_key_name :: str where
  "gemini_key_name = U ''GEMINI_API_KEY''"

definition get_api_key :: "gemini_env \<Rightarrow> exn + str option" where
  "get_api_key env =
     (case shell_echo env gemini_key_name of
        Inr result \<Rightarrow>
          (let api_key = strip (stdout result)
           in Inr (if api_key \<noteq> [] then Some api_key else None))
      | Inl e \<Rightarrow>
          if is_subprocess_error e then Inr (environ env gemini_key_name) else Inl e)"

text \<open>\<open>TranslationBenchmark._get_api_key\<close> (translation_benchmark.py), with its bare \<open>except\<close>.\<close>

definition benchmark_get_api_key :: "gemini_env \<Rightarrow> str \<Rightarrow> str option" where
  "benchmark_get_api_key env env_name =
     (case shell_echo env env_name of
        Inr result \<Rightarrow>
          (let api_key = strip (stdout result)
           in if api_key \<noteq> [] then Some api_key else environ env env_name)
      | Inl e \<Rightarrow> environ env env_name)"

text \<open>\<open>_show_dialog\<close> and \<open>_copy_to_clipboard\<close>.\<close>

definition show_dialog :: "('a ui_env_scheme) \<Rightarrow> dialog \<Rightarrow> world \<Rightarrow> (exn + unit) \<times> world" where
  "show_dialog env d w =
     (let w1 = effect env (Osascript d) w
      in case osascript env d of
           None \<Rightarrow> (Inr (), w1)
         | Some e \<Rightarrow>
             if is_subprocess_error e then (Inr (), effect env (PrintDialog d) w1)
             else (Inl e, w1))"

definition copy_to_clipboard :: "('a ui_env_scheme) \<Rightarrow> str \<Rightarrow> world \<Rightarrow> (exn + unit) \<times> world" where
  "copy_to_clipboard env text w =
     (let w1 = effect env (Pbcopy text) w
      in case pbcopy env text of
           None \<Rightarrow> (Inr (), w1)
         | Some e \<Rightarrow> if is_subprocess_error e then (Inr (), w1) else (Inl e, w1))"

text \<open>
  The two transport attempts of \<open>translate_with_api\<close> (the inner \<open>try\<close> block): the header
  command first, the URL-parameter command when the first exits with a non-zero status.
  The result is the response text and the elapsed time.
\<close>

definition attempts :: "gemini_env \<Rightarrow> real \<Rightarrow> world \<Rightarrow> (exn + str \<times> real) \<times> world" where
  "attempts env start_time w0 =
     (let w1 = effect env (Curl Header) w0
      in case curl env Header of
           Inl e \<Rightarrow> (Inl e, w1)
         | Inr result \<Rightarrow>
             (let end_time = now w1;
                  elapsed_time = end_time - start_time
              in if returncode result \<noteq> 0 then
                   (let w2 = effect env (Curl UrlParam) w1
                    in case curl env UrlParam of
                         Inl e \<Rightarrow> (Inl e, w2)
                       | Inr result2 \<Rightarrow>
                           if returncode result2 \<noteq> 0 then
                             (Inl (ValueError (CurlErrorMsg (returncode result2)
                                    (if stderr result2 \<noteq> [] then Some (stderr result2) else None))),
                              w2)
                           else (Inr (stdout result2, elapsed_time), w2))
                 else (Inr (stdout result, elapsed_time), w1)))"

text \<open>The temporary file around the attempts, removed in the \<open>finally\<close> clause.\<close>

definition with_tempfile :: "gemini_env \<Rightarrow> real \<Rightarrow> world \<Rightarrow> (exn + str \<times> real) \<times> world" where
  "with_tempfile env start_time w0 =
     (let w1 = effect env MkTemp w0
      in case mktemp env of
           Inl e \<Rightarrow> (Inl e, w1)
         | Inr temp_file_path \<Rightarrow>
             (case attempts env start_time w1 of
                (r, w2) \<Rightarrow> (r, effect env (Unlink temp_file_path) w2)))"

text \<open>The checks on the decoded response, in the order of the source.\<close>

definition unknown_error :: str where
  "unknown_error = [19981, 26126, 12394, 12456, 12521, 12540]"

definition por :: "exn + bool \<Rightarrow> exn + bool \<Rightarrow> exn + bool" where
  "por a b = bind a (\<lambda>x. if x then Inr True else b)"

definition not_in :: "str \<Rightarrow> json \<Rightarrow> exn + bool" where
  "not_in k x = bind (py_in k x) (\<lambda>b. Inr (\<not> b))"

definition falsy :: "json \<Rightarrow> exn + bool" where
  "falsy x = Inr (\<not> truthy x)"

definition candidate0 :: "json \<Rightarrow> exn + json" where
  "candidate0 response_json = bind (getitem response_json (U ''candidates'')) getitem0"

definition content0 :: "json \<Rightarrow> exn + json" where
  "content0 response_json = bind (candidate0 response_json) (\<lambda>c. getitem c (U ''content''))"

definition parts0 :: "json \<Rightarrow> exn + json" where
  "parts0 response_json = bind (content0 response_json) (\<lambda>c. getitem c (U ''parts''))"

definition no_result :: "json \<Rightarrow> exn + bool" where
  "no_result response_json =
     por (not_in (U ''candidates'') response_json)
    (por (bind (getitem response_json (U ''candidates'')) falsy)
    (por (bind (candidate0 response_json) (not_in (U ''content'')))
    (por (bind (content0 response_json) (not_in (U ''parts'')))
         (bind (parts0 response_json) falsy))))"

definition extract_text :: "json \<Rightarrow> exn + str" where
  "extract_text response_json =
     bind (py_in (U ''error'') response_json) (\<lambda>has_error.
       if has_error then
         bind (getitem response_json (U ''error'')) (\<lambda>err.
         bind (py_get err (U ''message'') (JStr unknown_error)) (\<lambda>error_msg.
           Inl (ValueError (ApiErrorMsg error_msg))))
       else
         bind (no_result response_json) (\<lambda>missing.
           if missing then Inl (ValueError NoResultMsg)
           else
             bind (parts0 response_json) (\<lambda>parts.
             bind (getitem0 parts) (\<lambda>part.
             bind (getitem part (U ''text'')) (\<lambda>translated_text.
               if \<not> truthy translated_text then Inl (ValueError EmptyResultMsg)
               else py_strip translated_text)))))"

definition classify :: "gemini_env \<Rightarrow> str \<Rightarrow> exn + str" where
  "classify env response_data =
     (case json_loads env response_data of
        None \<Rightarrow> Inl (ValueError (InvalidJsonMsg response_data))
      | Some response_json \<Rightarrow> extract_text response_json)"

text \<open>The three \<open>except\<close> clauses that close \<open>translate_with_api\<close>.\<close>

fun reraise :: "exn \<Rightarrow> exn" where
  "reraise TimeoutExpired = ValueError TimeoutMsg"
| "reraise (SubprocessError s) = ValueError (ProcessErrorMsg s)"
| "reraise e = ValueError (UnexpectedMsg e)"

text \<open>\<open>QuickTranslator.translate_with_api\<close>: the translation and the elapsed time, or the exception raised.\<close>

definition translate_with_api ::
  "gemini_env \<Rightarrow> translator \<Rightarrow> str \<Rightarrow> world \<Rightarrow> (exn + str \<times> real) \<times> world" where
  "translate_with_api env self text w0 =
     (if api_key self = None \<or> api_key self = Some [] then (Inl (ValueError MissingKeyMsg), w0)
      else
        (let w1 = effect env Build w0;
             start_time = now w1
         in case with_tempfile env start_time w1 of
              (Inl e, w2) \<Rightarrow> (Inl (reraise e), w2)
            | (Inr (response_data, elapsed_time), w2) \<Rightarrow>
                (let w3 = effect env Loads w2
                 in case classify env response_data of
                      Inl e \<Rightarrow> (Inl (reraise e), w3)
                    | Inr translated_text \<Rightarrow> (Inr (translated_text, elapsed_time), w3))))"

text \<open>\<open>QuickTranslator.run\<close>: the body of its \<open>try\<close> statement first.\<close>

definition dialog_then_false ::
  "('a ui_env_scheme) \<Rightarrow> dialog \<Rightarrow> world \<Rightarrow> (exn + bool) \<times> world" where
  "dialog_then_false env d w =
     (case show_dialog env d w of
        (Inl e, w1) \<Rightarrow> (Inl e, w1)
      | (Inr _, w1) \<Rightarrow> (Inr False, w1))"

definition present ::
  "('a ui_env_scheme) \<Rightarrow> real \<Rightarrow> str \<Rightarrow> real \<Rightarrow> world \<Rightarrow> (exn + bool) \<times> world" where
  "present env started translated_text elapsed_time w1 =
     (case copy_to_clipboard env translated_text w1 of
        (Inl e, w2) \<Rightarrow> (Inl e, w2)
      | (Inr _, w2) \<Rightarrow>
          (let total_time = now w2 - started
           in case show_dialog env (ResultDialog translated_text elapsed_time total_time) w2 of
                (Inl e, w3) \<Rightarrow> (Inl e, w3)
              | (Inr _, w3) \<Rightarrow> (Inr True, effect env (Print translated_text) w3)))"

definition run_handlers ::
  "('a ui_env_scheme) \<Rightarrow> (exn + bool) \<times> world \<Rightarrow> (exn + bool) \<times> world" where
  "run_handlers env r =
     (case r of
        (Inl (ValueError m), w) \<Rightarrow> dialog_then_false env (ErrorDialog m) w
      | (Inl e, w) \<Rightarrow> dialog_then_false env (UnexpectedDialog e) w
      | (Inr b, w) \<Rightarrow> (Inr b, w))"

definition run :: "gemini_env \<Rightarrow> translator \<Rightarrow> str \<Rightarrow> world \<Rightarrow> (exn + bool) \<times> world" where
  "run env self input_text w0 =
     (if input_text = [] then dialog_then_false env NoTextSelected w0
      else
        run_handlers env
          (case translate_with_api env self input_text w0 of
             (Inl e, w1) \<Rightarrow> (Inl e, w1)
           | (Inr (translated_text, elapsed_time), w1) \<Rightarrow>
               present env (program_start_time self) translated_text elapsed_time w1))"

text \<open>
  \<open>main\<close>: the text comes from standard input when that is not a terminal, from the
  command-line arguments otherwise.  The result is the exit status of the process; an
  exception that nothing catches ends the interpreter with status 1.
\<close>

datatype input = Stdin str | Argv "str list"

fun read_input :: "input \<Rightarrow> str" where
  "read_input (Stdin s) = s"
| "read_input (Argv args) = (if args \<noteq> [] then join_space args else [])"

definition exit_status :: "(exn + bool) \<times> world \<Rightarrow> int \<times> world" where
  "exit_status r = (case r of (Inr True, w) \<Rightarrow> (0, w) | (_, w) \<Rightarrow> (1, w))"

definition main :: "gemini_env \<Rightarrow> input \<Rightarrow> world \<Rightarrow> int \<times> world" where
  "main env src w0 =
     (let input_text = strip (read_input src);
          w1 = effect env (ShellEcho gemini_key_name) w0
      in case get_api_key env of
           Inl e \<Rightarrow> (1, w1)
         | Inr key \<Rightarrow>
             exit_status
               (run env \<lparr>program_start_time = now w0, api_key = key\<rparr> input_text w1))"

section \<open>Local translator (translate_plamo.py)\<close>

record plamo_env = ui_env +
  shell :: "str option"                          \<comment> \<open>the variable \<open>SHELL\<close>\<close>
  print_path :: "str \<Rightarrow> bool \<Rightarrow> exn + completed"  \<comment> \<open>the shell asked for \<open>PATH\<close>; the flag: fish arguments\<close>
  userhome :: "str option"                       \<comment> \<open>the home directory, when it can be found\<close>
  isdir :: "str \<Rightarrow> bool"
  isfile :: "str \<Rightarrow> bool"
  access_x :: "str \<Rightarrow> bool"
  plamo_cli :: "str \<Rightarrow> str \<Rightarrow> exn + completed"  \<comment> \<open>executable and text\<close>

record plamo_translator =
  plamo_start_time :: real
  plamo_path :: "str option"
  path_list :: "str list"

text \<open>\<open>os.path.expanduser\<close> on \<open>~/.local/bin\<close>: unchanged when no home directory is known.\<close>

definition expanduser_local_bin :: "plamo_env \<Rightarrow> str" where
  "expanduser_local_bin env =
     (case userhome env of
        None \<Rightarrow> U ''~/.local/bin''
      | Some h \<Rightarrow> rev (dropWhile (\<lambda>c. c = 47) (rev h)) @ U ''/.local/bin'')"

definition important_paths :: "plamo_env \<Rightarrow> str list" where
  "important_paths env = [expanduser_local_bin env, U ''/opt/homebrew/bin'', U ''/usr/local/bin'']"

text \<open>
  \<open>_ensure_common_paths\<close>: the loop runs over the important paths in reverse and inserts
  at the front of the list it is changing.
\<close>

definition ensure_step :: "plamo_env \<Rightarrow> str \<Rightarrow> str list \<Rightarrow> str list" where
  "ensure_step env important_path pl =
     (if important_path \<notin> set pl \<and> isdir env important_path then important_path # pl else pl)"

definition ensure_common_paths :: "plamo_env \<Rightarrow> str list \<Rightarrow> str list" where
  "ensure_common_paths env pl = fold (ensure_step env) (rev (important_paths env)) pl"

text \<open>
  \<open>_get_path_from_shell\<close>.  The two diagnostic lines it writes to standard error are
  left out.  \<open>FileNotFoundError\<close> is caught beside the subprocess errors; any other
  exception leaves the function.
\<close>

definition parse_path :: "nat \<Rightarrow> str \<Rightarrow> str list" where
  "parse_path sep path_output = map strip (filter (\<lambda>p. strip p \<noteq> []) (split_on sep path_output))"

fun is_file_not_found :: "exn \<Rightarrow> bool" where
  "is_file_not_found (FileNotFoundError s) = True"
| "is_file_not_found _ = False"

definition get_path_from_shell :: "plamo_env \<Rightarrow> str \<Rightarrow> str \<Rightarrow> exn + str list" where
  "get_path_from_shell env shell_path shell_name =
     (case print_path env shell_path (shell_name = U ''fish'') of
        Inl e \<Rightarrow> if is_subprocess_error e \<or> is_file_not_found e then Inr [] else Inl e
      | Inr result \<Rightarrow>
          if returncode result \<noteq> 0 then Inr []
          else
            (let path_output = strip (stdout result)
             in if path_output = [] then Inr []
                else
                  Inr (ensure_common_paths env
                        (if shell_name = U ''fish'' then parse_path 10 path_output
                         else parse_path 58 path_output))))"

text \<open>\<open>_search_via_shell\<close> and \<open>_find_plamo_translate\<close>.\<close>

definition plamo_name :: str where
  "plamo_name = U ''plamo-translate''"

fun scan :: "plamo_env \<Rightarrow> str list \<Rightarrow> str option" where
  "scan env [] = None"
| "scan env (path_dir # rest) =
     (let plamo_path = path_join path_dir plamo_name
      in if isfile env plamo_path \<and> access_x env plamo_path then Some plamo_path
         else scan env rest)"

definition shell_or_default :: "plamo_env \<Rightarrow> str" where
  "shell_or_default env = (case shell env of None \<Rightarrow> U ''/bin/sh'' | Some s \<Rightarrow> s)"

definition search_via_shell :: "plamo_env \<Rightarrow> str \<Rightarrow> exn + str option \<times> str list" where
  "search_via_shell env shell_name =
     bind (get_path_from_shell env (shell_or_default env) shell_name) (\<lambda>pl.
       if pl = [] then Inr (None, [])
       else Inr (scan env pl, pl))"

definition find_plamo_translate :: "plamo_env \<Rightarrow> exn + str option \<times> str list" where
  "find_plamo_translate env = search_via_shell env (basename (shell_or_default env))"

text \<open>\<open>_show_plamo_not_found_error\<close>: the dialog, then the same text on standard error.\<close>

definition show_plamo_not_found_error ::
  "plamo_env \<Rightarrow> str list \<Rightarrow> world \<Rightarrow> (exn + unit) \<times> world" where
  "show_plamo_not_found_error env pl w =
     (case show_dialog env (NotFoundDialog pl) w of
        (Inl e, w1) \<Rightarrow> (Inl e, w1)
      | (Inr _, w1) \<Rightarrow> (Inr (), effect env (Stderr (NotFoundDialog pl)) w1))"

text \<open>\<open>PlamoTranslator.translate_with_plamo_cli\<close>.\<close>

definition translate_with_plamo_cli ::
  "plamo_env \<Rightarrow> plamo_translator \<Rightarrow> str \<Rightarrow> world \<Rightarrow> (exn + str \<times> real) \<times> world" where
  "translate_with_plamo_cli env self text w0 =
     (case plamo_path self of
        None \<Rightarrow>
          (case show_plamo_not_found_error env (path_list self) w0 of
             (Inl e, w1) \<Rightarrow> (Inl e, w1)
           | (Inr _, w1) \<Rightarrow> (Inl (ValueError PlamoNotFoundMsg), w1))
      | Some exe \<Rightarrow>
          if exe = [] then
            (case show_plamo_not_found_error env (path_list self) w0 of
               (Inl e, w1) \<Rightarrow> (Inl e, w1)
             | (Inr _, w1) \<Rightarrow> (Inl (ValueError PlamoNotFoundMsg), w1))
          else
            (let start_time = now w0;
                 w1 = effect env (Plamo exe text) w0
             in case plamo_cli env exe text of
                  Inl e \<Rightarrow> (Inl (reraise e), w1)
                | Inr result \<Rightarrow>
                    (let end_time = now w1;
                         elapsed_time = end_time - start_time
                     in if returncode result \<noteq> 0 then
                          (Inl (reraise (ValueError (PlamoErrorMsg
                                 (if stderr result \<noteq> [] then stderr result else stdout result)))),
                           w1)
                        else
                          (let translated_text = strip (stdout result)
                           in if translated_text = [] then
                                (Inl (reraise (ValueError EmptyResultMsg)), w1)
                              else (Inr (translated_text, elapsed_time), w1)))))"

text \<open>\<open>PlamoTranslator.run\<close> and the \<open>main\<close> of the local translator.\<close>

definition plamo_run ::
  "plamo_env \<Rightarrow> plamo_translator \<Rightarrow> str \<Rightarrow> world \<Rightarrow> (exn + bool) \<times> world" where
  "plamo_run env self input_text w0 =
     (if input_text = [] then dialog_then_false env NoTextSelected w0
      else if plamo_path self = None \<or> plamo_path self = Some [] then
        (case show_plamo_not_found_error env (path_list self) w0 of
           (Inl e, w1) \<Rightarrow> (Inl e, w1)
         | (Inr _, w1) \<Rightarrow> (Inr False, w1))
      else
        run_handlers env
          (case translate_with_plamo_cli env self input_text w0 of
             (Inl e, w1) \<Rightarrow> (Inl e, w1)
           | (Inr (translated_text, elapsed_time), w1) \<Rightarrow>
               present env (plamo_start_time self) translated_text elapsed_time w1))"

definition plamo_main :: "plamo_env \<Rightarrow> input \<Rightarrow> world \<Rightarrow> int \<times> world" where
  "plamo_main env src w0 =
     (let input_text = strip (read_input src);
          w1 = effect env ShellPath w0
      in case find_plamo_translate env of
           Inl e \<Rightarrow> (1, w1)
         | Inr (found, pl) \<Rightarrow>
             exit_status
               (plamo_run env \<lparr>plamo_start_time = now w0, plamo_path = found, path_list = pl\<rparr>
                  input_text w1))"

section \<open>Notions used to state the properties\<close>

text \<open>The effects performed between two states of the world.\<close>

definition performed :: "world \<Rightarrow> world \<Rightarrow> event list" where
  "performed w w' = drop (length (trace w)) (trace w')"

text \<open>
  The failures of the \<open>PATH\<close> probe that \<open>_get_path_from_shell\<close> turns into an empty list:
  a non-zero exit status, a timeout or another subprocess error, a shell that is not found.
\<close>

fun probe_failed :: "exn + completed \<Rightarrow> bool" where
  "probe_failed (Inl e) = (is_subprocess_error e \<or> is_file_not_found e)"
| "probe_failed (Inr result) = (returncode result \<noteq> 0)"

text \<open>The important paths that exist on disk and are absent from a list, in declared order.\<close>

definition missing :: "plamo_env \<Rightarrow> str list \<Rightarrow> str list" where
  "missing env pl = filter (\<lambda>p. p \<notin> set pl \<and> isdir env p) (important_paths env)"

section \<open>Concrete scenarios\<close>

definition w_start :: world where
  "w_start = \<lparr>now = 0, trace = []\<rparr>"

definition keyed :: translator where
  "keyed = \<lparr>program_start_time = 0, api_key = Some (U ''test-gemini-api-key'')\<rparr>"

text \<open>A machine where every external call times out and nothing takes time.\<close>

definition gemini_env0 :: gemini_env where
  "gemini_env0 = \<lparr>cost = (\<lambda>ev. 0), osascript = (\<lambda>d. None), pbcopy = (\<lambda>t. None),
     shell_echo = (\<lambda>n. Inl TimeoutExpired), environ = (\<lambda>n. None),
     mktemp = Inr (U ''/tmp/test.json''), curl = (\<lambda>v. Inl TimeoutExpired),
     json_loads = (\<lambda>s. None)\<rparr>"

text \<open>A well-formed response whose text field holds three spaces.\<close>

definition blank_text :: str where
  \<open>blank_text = U ''{"candidates": [{"content": {"parts": [{"text": "   "}]}}]}''\<close>

definition blank_response :: json where
  "blank_response =
     JObj [(U ''candidates'', JArr [JObj [(U ''content'',
       JObj [(U ''parts'', JArr [JObj [(U ''text'', JStr (U ''   ''))]])])]])]"

definition env_blank :: gemini_env where
  "env_blank = gemini_env0\<lparr>
     curl := (\<lambda>v. Inr \<lparr>returncode = 0, stdout = blank_text, stderr = []\<rparr>),
     json_loads := (\<lambda>s. if s = blank_text then Some blank_response else None)\<rparr>"

text \<open>A response that is not JSON.\<close>

definition env_garbage :: gemini_env where
  "env_garbage = gemini_env0\<lparr>
     curl := (\<lambda>v. Inr \<lparr>returncode = 0, stdout = U ''Invalid JSON'', stderr = []\<rparr>)\<rparr>"

text \<open>The header command exits with status zero and the body is an error object.\<close>

definition error_text :: str where
  \<open>error_text = U ''{"error": {"message": "Invalid API key"}}''\<close>

definition error_response :: json where
  "error_response = JObj [(U ''error'', JObj [(U ''message'', JStr (U ''Invalid API key''))])]"

definition header_reply :: completed where
  "header_reply = \<lparr>returncode = 0, stdout = error_text, stderr = []\<rparr>"

definition env_api_error :: gemini_env where
  "env_api_error = gemini_env0\<lparr>
     curl := (\<lambda>v. case v of Header \<Rightarrow> Inr header_reply | UrlParam \<Rightarrow> Inl TimeoutExpired),
     json_loads := (\<lambda>s. if s = error_text then Some error_response else None)\<rparr>"

text \<open>Both commands exit with a non-zero status.\<close>

definition refused_a :: completed where
  "refused_a = \<lparr>returncode = 6, stdout = [], stderr = U ''Auth error''\<rparr>"

definition refused_b :: completed where
  "refused_b = \<lparr>returncode = 7, stdout = [], stderr = U ''Connection failed''\<rparr>"

definition env_both_fail :: gemini_env where
  "env_both_fail = gemini_env0\<lparr>
     curl := (\<lambda>v. case v of Header \<Rightarrow> Inr refused_a | UrlParam \<Rightarrow> Inr refused_b)\<rparr>"

text \<open>
  A machine with a clock: building the request takes 4 seconds, writing the payload
  half a second, the header command 1 second, the URL-parameter command 2 seconds and
  decoding 8 seconds.
\<close>

fun timed_cost :: "event \<Rightarrow> real" where
  "timed_cost Build = 4"
| "timed_cost MkTemp = 1 / 2"
| "timed_cost (Curl Header) = 1"
| "timed_cost (Curl UrlParam) = 2"
| "timed_cost Loads = 8"
| "timed_cost _ = 0"

definition good_text :: str where
  \<open>good_text = U ''{"candidates": [{"content": {"parts": [{"text": "  Hi  "}]}}]}''\<close>

definition good_response :: json where
  "good_response =
     JObj [(U ''candidates'', JArr [JObj [(U ''content'',
       JObj [(U ''parts'', JArr [JObj [(U ''text'', JStr (U ''  Hi  ''))]])])]])]"

definition good_reply :: completed where
  "good_reply = \<lparr>returncode = 0, stdout = good_text, stderr = []\<rparr>"

definition env_timed :: gemini_env where
  "env_timed = gemini_env0\<lparr>
     cost := timed_cost,
     curl := (\<lambda>v. Inr good_reply),
     json_loads := (\<lambda>s. if s = good_text then Some good_response else None)\<rparr>"

definition env_timed_fallback :: gemini_env where
  "env_timed_fallback = env_timed\<lparr>
     curl := (\<lambda>v. case v of Header \<Rightarrow> Inr refused_a | UrlParam \<Rightarrow> Inr good_reply)\<rparr>"

text \<open>The login shell answers with an empty line; the process environment holds the key.\<close>

definition env_empty_probe :: gemini_env where
  "env_empty_probe = gemini_env0\<lparr>
     shell_echo := (\<lambda>n. Inr \<lparr>returncode = 0, stdout = [10], stderr = []\<rparr>),
     environ := (\<lambda>n. if n = gemini_key_name then Some (U ''gemini-env-key'') else None)\<rparr>"

text \<open>
  A machine for the local translator: the \<open>PATH\<close> probe times out, every directory
  exists and \<open>/usr/local/bin/plamo-translate\<close> is an executable file.
\<close>

definition plamo_env0 :: plamo_env where
  "plamo_env0 = \<lparr>cost = (\<lambda>ev. 0), osascript = (\<lambda>d. None), pbcopy = (\<lambda>t. None),
     shell = Some (U ''/bin/zsh''), print_path = (\<lambda>sh fish. Inl TimeoutExpired),
     userhome = Some (U ''/Users/test''), isdir = (\<lambda>p. True),
     isfile = (\<lambda>p. p = U ''/usr/local/bin/plamo-translate''),
     access_x = (\<lambda>p. p = U ''/usr/local/bin/plamo-translate''),
     plamo_cli = (\<lambda>exe text. Inr \<lparr>returncode = 1, stdout = [], stderr = U ''Translation failed''\<rparr>)\<rparr>"

definition located :: plamo_translator where
  "located = \<lparr>plamo_start_time = 0, plamo_path = Some (U ''/usr/local/bin/plamo-translate''),
     path_list = [U ''/usr/local/bin'']\<rparr>"

definition full_path :: "str list" where
  "full_path = [U ''/usr/local/bin'', U ''/usr/bin'', U ''/opt/homebrew/bin'', U ''/Users/test/.local/bin'']"

section \<open>Auxiliary facts\<close>

text \<open>A string is empty after trimming exactly when it holds nothing but whitespace.\<close>

lemma strip_empty_iff: "strip s = [] \<longleftrightarrow> (\<forall>c \<in> set s. isspace c)"
proof
  assume "strip s = []"
  then have "\<forall>c \<in> set (dropWhile isspace s). isspace c"
    by (simp add: strip_def dropWhile_eq_Nil_conv)
  then have "dropWhile isspace s = []"
    by (metis hd_dropWhile list.set_sel(1))
  then show "\<forall>c \<in> set s. isspace c"
    by (simp add: dropWhile_eq_Nil_conv)
next
  assume "\<forall>c \<in> set s. isspace c"
  then have d: "dropWhile isspace s = []"
    by (simp add: dropWhile_eq_Nil_conv)
  show "strip s = []"
    unfolding strip_def d by simp
qed

lemma local_bin_not_homebrew: "expanduser_local_bin env \<noteq> U ''/opt/homebrew/bin''"
proof -
  have "h @ U ''/.local/bin'' \<noteq> U ''/opt/homebrew/bin''" for h
  proof
    assume "h @ U ''/.local/bin'' = U ''/opt/homebrew/bin''"
    then have "rev (h @ U ''/.local/bin'') = rev (U ''/opt/homebrew/bin'')" by simp
    then show False by (simp add: U_def)
  qed
  then show ?thesis
    by (simp add: expanduser_local_bin_def U_def split: option.splits)
qed

lemma local_bin_not_usr_local: "expanduser_local_bin env \<noteq> U ''/usr/local/bin''"
proof -
  have "h @ U ''/.local/bin'' \<noteq> U ''/usr/local/bin''" for h
  proof
    assume "h @ U ''/.local/bin'' = U ''/usr/local/bin''"
    then have "rev (h @ U ''/.local/bin'') = rev (U ''/usr/local/bin'')" by simp
    then show False by (simp add: U_def)
  qed
  then show ?thesis
    by (simp add: expanduser_local_bin_def U_def split: option.splits)
qed

lemma homebrew_not_usr_local: "U ''/opt/homebrew/bin'' \<noteq> U ''/usr/local/bin''"
  by (simp add: U_def)

lemma important_paths_distinct: "distinct (important_paths env)"
  using local_bin_not_homebrew [of env] local_bin_not_usr_local [of env] homebrew_not_usr_local
  by (simp add: important_paths_def)

lemma ensure_common_paths_eq: "ensure_common_paths env pl = missing env pl @ pl"
  using local_bin_not_homebrew [of env] local_bin_not_usr_local [of env] homebrew_not_usr_local
  by (auto simp: ensure_common_paths_def important_paths_def ensure_step_def missing_def)

lemma count_list_distinct: "distinct xs \<Longrightarrow> x \<in> set xs \<Longrightarrow> count_list xs x = 1"
  by (induction xs) auto

lemma dialog_then_false_result:
  "fst (dialog_then_false env d w) =
     (case osascript env d of
        None \<Rightarrow> Inr False
      | Some e \<Rightarrow> if is_subprocess_error e then Inr False else Inl e)"
  by (simp add: dialog_then_false_def show_dialog_def Let_def split: option.splits)

lemma dialog_then_false_performed:
  "set (performed w (snd (dialog_then_false env d w))) \<subseteq> {Osascript d, PrintDialog d}"
  by (auto simp: dialog_then_false_def show_dialog_def performed_def effect_def Let_def
      split: option.splits)

lemma exit_status_failure: "fst r \<noteq> Inr True \<Longrightarrow> fst (exit_status r) = 1"
  by (cases r) (auto simp: exit_status_def split: sum.splits bool.splits)

lemma dialog_then_false_not_true: "fst (dialog_then_false env d w) \<noteq> Inr True"
  by (simp add: dialog_then_false_result split: option.splits)

text \<open>The exceptions that leave \<open>translate_with_api\<close>: each is a \<open>ValueError\<close>, and its
  message is the missing-key, the timeout, the process-error or the unexpected-error one.\<close>

lemma reraise_cases:
  "reraise e = ValueError TimeoutMsg \<or> (\<exists>s. reraise e = ValueError (ProcessErrorMsg s)) \<or>
   reraise e = ValueError (UnexpectedMsg e)"
  by (cases e) simp_all

lemma translate_with_api_raises:
  assumes "fst (translate_with_api env self text w) = Inl e"
  shows "e = ValueError MissingKeyMsg \<or> e = ValueError TimeoutMsg \<or>
     (\<exists>s. e = ValueError (ProcessErrorMsg s)) \<or> (\<exists>x. e = ValueError (UnexpectedMsg x))"
  using assms reraise_cases
  by (auto simp: translate_with_api_def Let_def split: if_splits prod.splits sum.splits)

text \<open>The local translator strips the output before it tests it, so a translation it
  returns is never empty.\<close>

lemma plamo_success_nonempty:
  assumes "fst (translate_with_plamo_cli env self text w) = Inr (translated_text, elapsed_time)"
  shows "translated_text \<noteq> []"
  using assms
  by (auto simp: translate_with_plamo_cli_def Let_def
      split: option.splits if_splits prod.splits sum.splits)

text \<open>The resolver of the benchmark reads the process environment whenever the login
  shell fails or answers with nothing.\<close>

lemma benchmark_falls_back:
  assumes "shell_echo env env_name = Inl e \<or>
     (\<exists>result. shell_echo env env_name = Inr result \<and> strip (stdout result) = [])"
  shows "benchmark_get_api_key env env_name = environ env env_name"
  using assms by (auto simp: benchmark_get_api_key_def)

section \<open>Properties of the Gemini translator\<close>

text \<open>
  C1: a translation that succeeds returns a text that is non-empty after trimming, and a
  well-formed response whose text field holds only whitespace gives the empty-result
  failure.  The source tests the text for emptiness before it strips it: on the response
  with three spaces as text, \<open>translate_with_api\<close> returns the empty string as a
  successful translation.
\<close>

theorem whitespace_response_returned_as_success:
  "fst (translate_with_api env_blank keyed (U ''Hello'') w_start) = Inr ([], 0)"
  by (simp add: translate_with_api_def with_tempfile_def attempts_def classify_def extract_text_def
      no_result_def parts0_def content0_def candidate0_def por_def not_in_def falsy_def bind_def
      env_blank_def gemini_env0_def keyed_def w_start_def effect_def blank_response_def U_def
      strip_def isspace_def)

text \<open>
  C2: a failure reaches the caller as the classified error produced where it occurred.
  In the source every \<open>ValueError\<close> raised inside the \<open>try\<close> statement is caught by the
  final \<open>except Exception\<close> clause and raised again inside an "unexpected error"
  message: a response that is not JSON for the Gemini translator, a non-zero exit status
  for the local translator.
\<close>

theorem classified_errors_rewrapped:
  "fst (translate_with_api env_garbage keyed (U ''Hello'') w_start) =
     Inl (ValueError (UnexpectedMsg (ValueError (InvalidJsonMsg (U ''Invalid JSON''))))) \<and>
   fst (translate_with_plamo_cli plamo_env0 located (U ''Hello'') w_start) =
     Inl (ValueError (UnexpectedMsg (ValueError (PlamoErrorMsg (U ''Translation failed'')))))"
  by (simp add: translate_with_api_def with_tempfile_def attempts_def classify_def
      env_garbage_def gemini_env0_def keyed_def w_start_def effect_def
      translate_with_plamo_cli_def plamo_env0_def located_def U_def)

text \<open>
  C3: when the header command exits with status zero, the URL-parameter command is never
  run, whatever the response body holds.
\<close>

theorem header_success_never_falls_back:
  assumes "curl env Header = Inr result" and "returncode result = 0"
  shows "Curl UrlParam \<notin> set (performed w (snd (translate_with_api env self text w)))"
  using assms
  by (auto simp: performed_def translate_with_api_def with_tempfile_def attempts_def effect_def
      Let_def split: sum.splits prod.splits)

theorem header_success_never_falls_back_witness:
  "curl env_api_error Header = Inr header_reply \<and> returncode header_reply = 0 \<and>
   Curl UrlParam \<notin>
     set (performed w_start (snd (translate_with_api env_api_error keyed (U ''Hello'') w_start))) \<and>
   fst (translate_with_api env_api_error keyed (U ''Hello'') w_start) =
     Inl (ValueError (UnexpectedMsg (ValueError (ApiErrorMsg (JStr (U ''Invalid API key''))))))"
proof -
  have h1: "curl env_api_error Header = Inr header_reply"
    by (simp add: env_api_error_def gemini_env0_def)
  have h2: "returncode header_reply = 0"
    by (simp add: header_reply_def)
  have "fst (translate_with_api env_api_error keyed (U ''Hello'') w_start) =
     Inl (ValueError (UnexpectedMsg (ValueError (ApiErrorMsg (JStr (U ''Invalid API key''))))))"
    by (simp add: translate_with_api_def with_tempfile_def attempts_def classify_def
        extract_text_def bind_def env_api_error_def gemini_env0_def keyed_def w_start_def
        effect_def header_reply_def error_response_def U_def)
  then show ?thesis
    using h1 h2 header_success_never_falls_back [OF h1 h2, of w_start keyed "U ''Hello''"]
    by simp
qed

text \<open>
  C4: when both commands exit with a non-zero status, the error that is raised carries
  the exit status and the standard-error text of the second command.
\<close>

theorem double_failure_carries_second_attempt:
  assumes "api_key self \<noteq> None" and "api_key self \<noteq> Some []"
    and "mktemp env = Inr temp_file_path"
    and "curl env Header = Inr result" and "returncode result \<noteq> 0"
    and "curl env UrlParam = Inr result2" and "returncode result2 \<noteq> 0"
  shows "fst (translate_with_api env self text w) =
     Inl (ValueError (UnexpectedMsg (ValueError (CurlErrorMsg (returncode result2)
       (if stderr result2 \<noteq> [] then Some (stderr result2) else None)))))"
  using assms
  by (simp add: translate_with_api_def with_tempfile_def attempts_def effect_def Let_def)

theorem double_failure_carries_second_attempt_witness:
  "api_key keyed \<noteq> None \<and> api_key keyed \<noteq> Some [] \<and>
   mktemp env_both_fail = Inr (U ''/tmp/test.json'') \<and>
   curl env_both_fail Header = Inr refused_a \<and> returncode refused_a \<noteq> 0 \<and>
   curl env_both_fail UrlParam = Inr refused_b \<and> returncode refused_b \<noteq> 0 \<and>
   fst (translate_with_api env_both_fail keyed (U ''Hello'') w_start) =
     Inl (ValueError (UnexpectedMsg (ValueError (CurlErrorMsg 7 (Some (U ''Connection failed''))))))"
proof -
  have h1: "api_key keyed \<noteq> None" and h2: "api_key keyed \<noteq> Some []"
    by (simp_all add: keyed_def U_def)
  have h3: "mktemp env_both_fail = Inr (U ''/tmp/test.json'')"
    by (simp add: env_both_fail_def gemini_env0_def)
  have h4: "curl env_both_fail Header = Inr refused_a"
    and h6: "curl env_both_fail UrlParam = Inr refused_b"
    by (simp_all add: env_both_fail_def gemini_env0_def)
  have h5: "returncode refused_a \<noteq> 0" and h7: "returncode refused_b \<noteq> 0"
    by (simp_all add: refused_a_def refused_b_def)
  have "stderr refused_b \<noteq> []" and "returncode refused_b = 7"
    and "stderr refused_b = U ''Connection failed''"
    by (simp_all add: refused_b_def U_def)
  then show ?thesis
    using h1 h2 h3 h4 h5 h6 h7
      double_failure_carries_second_attempt [OF h1 h2 h3 h4 h5 h6 h7, of "U ''Hello''" w_start]
    by simp
qed

text \<open>
  C5, as stated: the elapsed time runs from just before the first transport attempt to
  just after the attempt that decides the outcome, without the time spent on building
  the request, and includes the second attempt when the fallback decides.  On the
  machine with a clock, a header command that succeeds after 1 second gives an elapsed
  time of a second and a half, the half second being the writing of the payload file.
  When the header command fails after 1 second and the URL-parameter command succeeds
  after 2 more, the elapsed time is again a second and a half, not the 3 seconds of the
  two attempts.
\<close>

theorem elapsed_time_counterexample:
  "fst (translate_with_api env_timed keyed (U ''Hello'') w_start) = Inr (U ''Hi'', 3 / 2) \<and>
   cost env_timed (Curl Header) = 1 \<and>
   fst (translate_with_api env_timed_fallback keyed (U ''Hello'') w_start) = Inr (U ''Hi'', 3 / 2) \<and>
   cost env_timed_fallback (Curl Header) + cost env_timed_fallback (Curl UrlParam) = 3"
  by (simp add: translate_with_api_def with_tempfile_def attempts_def classify_def extract_text_def
      no_result_def parts0_def content0_def candidate0_def por_def not_in_def falsy_def bind_def
      env_timed_fallback_def env_timed_def gemini_env0_def keyed_def w_start_def effect_def
      good_response_def good_reply_def refused_a_def U_def strip_def isspace_def)

text \<open>
  C5, amended: when the header command exits with status zero and the translation
  succeeds, the elapsed time is the time from just before the payload file is written to
  just after the header command returns; building the request and decoding the response
  are not part of it.
\<close>

theorem elapsed_time_without_fallback:
  assumes "curl env Header = Inr result" and "returncode result = 0"
    and "fst (translate_with_api env self text w) = Inr (translated_text, elapsed_time)"
  shows "elapsed_time = cost env MkTemp + cost env (Curl Header)"
  using assms
  by (auto simp: translate_with_api_def with_tempfile_def attempts_def effect_def Let_def
      split: sum.splits prod.splits if_splits)

theorem elapsed_time_without_fallback_witness:
  "curl env_timed Header = Inr good_reply \<and> returncode good_reply = 0 \<and>
   fst (translate_with_api env_timed keyed (U ''Hello'') w_start) = Inr (U ''Hi'', 3 / 2) \<and>
   (3 / 2 :: real) = cost env_timed MkTemp + cost env_timed (Curl Header)"
proof -
  have h1: "curl env_timed Header = Inr good_reply"
    by (simp add: env_timed_def gemini_env0_def)
  have h2: "returncode good_reply = 0"
    by (simp add: good_reply_def)
  have h3: "fst (translate_with_api env_timed keyed (U ''Hello'') w_start) = Inr (U ''Hi'', 3 / 2)"
    by (simp add: translate_with_api_def with_tempfile_def attempts_def classify_def
        extract_text_def no_result_def parts0_def content0_def candidate0_def por_def not_in_def
        falsy_def bind_def env_timed_def gemini_env0_def keyed_def w_start_def effect_def
        good_response_def good_reply_def U_def strip_def isspace_def)
  show ?thesis
    using h1 h2 h3 elapsed_time_without_fallback [OF h1 h2 h3]
    by simp
qed

text \<open>
  C6: when the login shell answers with an empty string, the resolver reads the variable
  from the process environment.  \<open>TranslationBenchmark._get_api_key\<close> does; in
  \<open>QuickTranslator._get_api_key\<close> an empty answer gives \<open>None\<close> although the process
  environment holds the key.
\<close>

theorem empty_probe_ignores_environment:
  "get_api_key env_empty_probe = Inr None \<and>
   environ env_empty_probe gemini_key_name = Some (U ''gemini-env-key'') \<and>
   benchmark_get_api_key env_empty_probe gemini_key_name = Some (U ''gemini-env-key'')"
  by (simp add: get_api_key_def benchmark_get_api_key_def env_empty_probe_def gemini_env0_def
      strip_def isspace_def)

section \<open>Properties of the executable locator\<close>

text \<open>
  C7, as stated: among the important directories put in front, the ones declared later
  come first.  With all three directories on disk and none in the list, the result has
  them in the order of their declaration, which is not the reverse order.
\<close>

theorem declared_order_counterexample:
  "important_paths plamo_env0 =
     [U ''/Users/test/.local/bin'', U ''/opt/homebrew/bin'', U ''/usr/local/bin''] \<and>
   ensure_common_paths plamo_env0 [U ''/usr/bin''] =
     [U ''/Users/test/.local/bin'', U ''/opt/homebrew/bin'', U ''/usr/local/bin'', U ''/usr/bin''] \<and>
   ensure_common_paths plamo_env0 [U ''/usr/bin''] \<noteq>
     rev (missing plamo_env0 [U ''/usr/bin'']) @ [U ''/usr/bin'']"
  by (simp add: ensure_common_paths_def important_paths_def ensure_step_def
      expanduser_local_bin_def plamo_env0_def U_def missing_def)

text \<open>
  C7, amended: the result is the list of the important directories that exist on disk
  and are absent from the input, in the order of their declaration, followed by the
  input; so an important directory that exists and is absent from the input is in front
  of all original entries and occurs exactly once.
\<close>

theorem ensure_common_paths_prepends:
  assumes "d \<in> set (important_paths env)" and "d \<notin> set pl" and "isdir env d"
  shows "ensure_common_paths env pl = missing env pl @ pl \<and> d \<in> set (missing env pl) \<and>
     count_list (ensure_common_paths env pl) d = 1"
proof -
  have "distinct (missing env pl)"
    by (simp add: missing_def important_paths_distinct)
  moreover have d: "d \<in> set (missing env pl)"
    using assms by (simp add: missing_def)
  ultimately have "count_list (missing env pl) d = 1"
    by (simp add: count_list_distinct)
  moreover have "count_list pl d = 0"
    using assms(2) by (simp add: count_list_0_iff)
  ultimately show ?thesis
    using d by (simp add: ensure_common_paths_eq)
qed

theorem ensure_common_paths_prepends_witness:
  "U ''/usr/local/bin'' \<in> set (important_paths plamo_env0) \<and>
   U ''/usr/local/bin'' \<notin> set [U ''/usr/bin'', U ''/opt/homebrew/bin''] \<and>
   isdir plamo_env0 (U ''/usr/local/bin'') \<and>
   ensure_common_paths plamo_env0 [U ''/usr/bin'', U ''/opt/homebrew/bin''] =
     [U ''/Users/test/.local/bin'', U ''/usr/local/bin'', U ''/usr/bin'', U ''/opt/homebrew/bin''] \<and>
   count_list (ensure_common_paths plamo_env0 [U ''/usr/bin'', U ''/opt/homebrew/bin''])
     (U ''/usr/local/bin'') = 1"
proof -
  have h1: "U ''/usr/local/bin'' \<in> set (important_paths plamo_env0)"
    by (simp add: important_paths_def)
  have h2: "U ''/usr/local/bin'' \<notin> set [U ''/usr/bin'', U ''/opt/homebrew/bin'']"
    by (simp add: U_def)
  have h3: "isdir plamo_env0 (U ''/usr/local/bin'')"
    by (simp add: plamo_env0_def)
  have "missing plamo_env0 [U ''/usr/bin'', U ''/opt/homebrew/bin''] =
      [U ''/Users/test/.local/bin'', U ''/usr/local/bin'']"
    by (simp add: missing_def important_paths_def expanduser_local_bin_def plamo_env0_def U_def)
  then show ?thesis
    using h1 h2 h3 ensure_common_paths_prepends [OF h1 h2 h3]
    by (simp add: U_def)
qed

text \<open>
  C8: on a list that already holds every important directory the augmentation returns
  the list itself.
\<close>

theorem ensure_common_paths_fixpoint:
  assumes "set (important_paths env) \<subseteq> set pl"
  shows "ensure_common_paths env pl = pl"
proof -
  have "missing env pl = []"
    using assms by (auto simp: missing_def filter_empty_conv)
  then show ?thesis
    by (simp add: ensure_common_paths_eq)
qed

theorem ensure_common_paths_fixpoint_witness:
  "set (important_paths plamo_env0) \<subseteq> set full_path \<and>
   ensure_common_paths plamo_env0 full_path = full_path"
proof -
  have h: "set (important_paths plamo_env0) \<subseteq> set full_path"
    by (simp add: important_paths_def expanduser_local_bin_def plamo_env0_def full_path_def U_def)
  show ?thesis
    using h ensure_common_paths_fixpoint [OF h] by simp
qed

text \<open>
  C9, as stated: after a failed \<open>PATH\<close> probe the locator still augments the empty list
  and scans it, and returns the augmented list.  On the machine where the probe times
  out, augmenting the empty list gives three directories and scanning them finds the
  executable, but the locator returns no path and the empty list.
\<close>

theorem failed_probe_counterexample:
  "find_plamo_translate plamo_env0 = Inr (None, []) \<and>
   ensure_common_paths plamo_env0 [] =
     [U ''/Users/test/.local/bin'', U ''/opt/homebrew/bin'', U ''/usr/local/bin''] \<and>
   scan plamo_env0 (ensure_common_paths plamo_env0 []) = Some (U ''/usr/local/bin/plamo-translate'')"
  by (simp add: find_plamo_translate_def search_via_shell_def get_path_from_shell_def bind_def
      ensure_common_paths_def important_paths_def ensure_step_def expanduser_local_bin_def
      plamo_env0_def U_def path_join_def plamo_name_def shell_or_default_def basename_def)

text \<open>
  C9, amended: when the \<open>PATH\<close> probe fails (non-zero exit status, timeout or other
  subprocess error, shell not found), the locator returns no path and the empty list,
  without augmenting and without scanning.
\<close>

theorem failed_probe_returns_nothing:
  assumes "probe_failed
     (print_path env (shell_or_default env) (basename (shell_or_default env) = U ''fish''))"
  shows "find_plamo_translate env = Inr (None, [])"
  using assms
  by (cases "print_path env (shell_or_default env) (basename (shell_or_default env) = U ''fish'')")
     (auto simp: find_plamo_translate_def search_via_shell_def get_path_from_shell_def bind_def)

theorem failed_probe_returns_nothing_witness:
  "probe_failed
     (print_path plamo_env0 (shell_or_default plamo_env0)
        (basename (shell_or_default plamo_env0) = U ''fish'')) \<and>
   find_plamo_translate plamo_env0 = Inr (None, [])"
proof -
  have h: "probe_failed
     (print_path plamo_env0 (shell_or_default plamo_env0)
        (basename (shell_or_default plamo_env0) = U ''fish''))"
    by (simp add: plamo_env0_def)
  show ?thesis
    using h failed_probe_returns_nothing [OF h] by simp
qed

section \<open>Empty input\<close>

text \<open>
  C10: for an input that is empty after trimming, whitespace-only input included, \<open>run\<close>
  shows the "no text selected" dialog and returns \<open>False\<close> (or passes on an exception of
  the dialog that is not a subprocess error); it performs no other effect, so no
  temporary file and no transport call, and its result does not depend on the credential
  or on the located executable.  The exit status of both programs is 1.
\<close>

theorem empty_input_fails:
  assumes "strip (read_input src) = []"
  shows "fst (run env self (strip (read_input src)) w) =
       (case osascript env NoTextSelected of
          None \<Rightarrow> Inr False
        | Some e \<Rightarrow> if is_subprocess_error e then Inr False else Inl e) \<and>
     set (performed w (snd (run env self (strip (read_input src)) w)))
       \<subseteq> {Osascript NoTextSelected, PrintDialog NoTextSelected} \<and>
     fst (plamo_run penv pself (strip (read_input src)) w) =
       (case osascript penv NoTextSelected of
          None \<Rightarrow> Inr False
        | Some e \<Rightarrow> if is_subprocess_error e then Inr False else Inl e) \<and>
     set (performed w (snd (plamo_run penv pself (strip (read_input src)) w)))
       \<subseteq> {Osascript NoTextSelected, PrintDialog NoTextSelected} \<and>
     fst (main env src w) = 1 \<and> fst (plamo_main penv src w) = 1"
proof -
  have e: "strip (read_input src) = []"
    using assms .
  have r: "run env t [] v = dialog_then_false env NoTextSelected v" for t v
    by (simp add: run_def)
  have p: "plamo_run penv t [] v = dialog_then_false penv NoTextSelected v" for t v
    by (simp add: plamo_run_def)
  have m: "fst (main env src w) = 1"
    by (simp add: main_def e r Let_def exit_status_failure dialog_then_false_not_true
        split: sum.splits)
  have pm: "fst (plamo_main penv src w) = 1"
    by (simp add: plamo_main_def e p Let_def exit_status_failure dialog_then_false_not_true
        split: sum.splits prod.splits)
  show ?thesis
    using m pm
    by (simp only: e r p dialog_then_false_result dialog_then_false_performed simp_thms)
qed

theorem empty_input_fails_witness:
  "strip (read_input (Stdin [32, 9, 10, 12288])) = [] \<and>
   run gemini_env0 keyed (strip (read_input (Stdin [32, 9, 10, 12288]))) w_start =
     (Inr False, \<lparr>now = 0, trace = [Osascript NoTextSelected]\<rparr>) \<and>
   fst (main gemini_env0 (Stdin [32, 9, 10, 12288]) w_start) = 1 \<and>
   fst (plamo_main plamo_env0 (Stdin [32, 9, 10, 12288]) w_start) = 1"
proof -
  have h: "strip (read_input (Stdin [32, 9, 10, 12288])) = []"
    by (simp add: strip_def isspace_def)
  have "run gemini_env0 keyed (strip (read_input (Stdin [32, 9, 10, 12288]))) w_start =
     (Inr False, \<lparr>now = 0, trace = [Osascript NoTextSelected]\<rparr>)"
    by (simp add: run_def strip_def isspace_def dialog_then_false_def show_dialog_def effect_def
        gemini_env0_def w_start_def)
  then show ?thesis
    using h empty_input_fails [OF h, of gemini_env0 keyed w_start plamo_env0 located]
    by simp
qed

end
